theory Spec2Isabelle
  imports Complex_Main "HOL-Library.Log_Nat"
begin

section \<open>Data model\<close>

text \<open>
  The repository holds several copies of one daily accrual engine written with pandas.
  Two families are modelled here:
  \<^item> \<open>calculate_interest_with_steps\<close> with its helpers \<open>get_band_name\<close> and
    \<open>get_rate_for_date_and_band\<close> (HOHOHOHOH.py, lines 30 to 69), which read the module
    level tables \<open>rates\<close> and \<open>bands\<close>; the tables are explicit arguments here;
  \<^item> \<open>calculate_daily_interest\<close> with \<open>get_band_for_balance\<close> and
    \<open>get_interest_rate\<close> (OffRelease.py, lines 231 to 370).

  A data frame is the list of its rows, in row order. A timestamp is the number of its
  calendar day (all timestamps are at midnight), so the daily range from \<open>s\<close> to
  \<open>e\<close> is \<open>[s..e]\<close>. A number is a rational: the exact value of the float it
  stands for. \<open>NaN\<close>, infinities and \<open>NaT\<close> cells are outside the model, except the
  \<open>NaT\<close> that \<open>min()\<close> of an empty column returns.

  The engines are given twice. The first presentation computes with exact rational
  arithmetic (\<open>+\<close>, \<open>*\<close>, \<open>/\<close> do not round, \<open>round(x, n)\<close> rounds the exact
  value half to even); it serves the properties that do not depend on rounding: which
  rows match, which row a lookup takes, which dates the log covers, which branch a guard
  takes at the inputs given. The second presentation (suffix \<open>_f\<close>) takes the
  floating-point operations, the column sum, \<open>round\<close> and \<open>sort_values\<close> as
  parameters and assumes nothing about them; what is proved of it holds for the
  arithmetic the interpreter really performs. \<open>python_float\<close> is that arithmetic for
  \<open>calculate_interest_with_steps\<close>, whose numbers are Python floats.
\<close>

record rate_row =
  Start_Date :: int
  rate_band :: string
  rate :: rat

record band_row =
  band :: string
  Minimum :: rat
  Maximum :: rat

record transaction =
  Date :: int
  Change :: rat

text \<open>
  One row of the calculation log. The two families name the columns differently
  (\<open>Band\<close> / \<open>Interest Band\<close>, \<open>Daily Rate (%)\<close> / \<open>Annual Rate (%)\<close>,
  \<open>Total Interest So Far\<close> / \<open>Cumulative Interest\<close>); the values sit in the same
  order. The date is kept as a day number instead of its \<open>strftime\<close> text.
\<close>

record log_row =
  log_Date :: int
  log_Balance :: rat
  log_Band :: string
  log_Rate :: rat
  log_Daily_Interest :: rat
  log_Total_Interest :: rat

datatype error = ValueError

section \<open>Library functions used by the engine\<close>

text \<open>
  Rounding of an exact value to \<open>n\<close> decimals, ties to the even neighbour. This is
  Python's \<open>round(x, n)\<close> up to the final conversion of the decimal result to a float
  (see \<open>python_float\<close>).
\<close>

definition round_half_even :: "rat \<Rightarrow> int" where
  "round_half_even x =
     (let f = \<lfloor>x\<rfloor>; r = x - of_int f
      in if r < 1 / 2 then f
         else if 1 / 2 < r then f + 1
         else if even f then f else f + 1)"

definition py_round :: "rat \<Rightarrow> nat \<Rightarrow> rat" where
  "py_round x n = of_int (round_half_even (x * 10 ^ n)) / 10 ^ n"

text \<open>Truth value of a Python \<open>str | None\<close>: \<open>None\<close> and the empty string are false.\<close>

definition truthy :: "string option \<Rightarrow> bool" where
  "truthy b = (case b of None \<Rightarrow> False | Some s \<Rightarrow> s \<noteq> [])"

text \<open>\<open>transactions_df["Date"].min()\<close>; \<open>None\<close> is the \<open>NaT\<close> of an empty column.\<close>

definition min_date :: "transaction list \<Rightarrow> int option" where
  "min_date transactions_df =
     (case map Date transactions_df of [] \<Rightarrow> None | d # ds \<Rightarrow> Some (fold min ds d))"

text \<open>
  \<open>pd.date_range(start, end)\<close> with the default daily frequency; pandas raises
  \<open>ValueError\<close> when \<open>start\<close> is \<open>NaT\<close>.
\<close>

definition date_range :: "int option \<Rightarrow> int \<Rightarrow> error + int list" where
  "date_range start end_date =
     (case start of None \<Rightarrow> Inl ValueError | Some s \<Rightarrow> Inr [s..end_date])"

text \<open>
  \<open>transactions_df.groupby("Date")["Change"].sum()\<close>: one entry per distinct date, in
  ascending date order, holding the sum of that date's amounts. The engine only looks
  dates up in it (\<open>in\<close> and \<open>[]\<close>), which is \<open>map_of\<close>.
\<close>

definition groupby_sum :: "transaction list \<Rightarrow> (int \<times> rat) list" where
  "groupby_sum transactions_df =
     map (\<lambda>d. (d, sum_list (map Change (filter (\<lambda>t. Date t = d) transactions_df))))
       (sort (remdups (map Date transactions_df)))"

section \<open>The helpers of \<open>calculate_interest_with_steps\<close>\<close>

definition get_band_name :: "band_row list \<Rightarrow> rat \<Rightarrow> string option" where
  "get_band_name bands balance =
     (let row = filter (\<lambda>r. Minimum r \<le> balance \<and> Maximum r \<ge> balance) bands
      in (case row of [] \<Rightarrow> None | r # _ \<Rightarrow> Some (band r)))"

definition get_rate_for_date_and_band :: "rate_row list \<Rightarrow> int \<Rightarrow> string \<Rightarrow> rat" where
  "get_rate_for_date_and_band rates date band_name =
     (let applicable = filter (\<lambda>r. Start_Date r \<le> date \<and> rate_band r = band_name) rates
      in if applicable \<noteq> [] then rate (last applicable) else 0)"

section \<open>The helpers of \<open>calculate_daily_interest\<close>\<close>

definition get_band_for_balance :: "rat \<Rightarrow> band_row list option \<Rightarrow> string option" where
  "get_band_for_balance balance bands_df =
     (case bands_df of
        None \<Rightarrow> None
      | Some bands \<Rightarrow>
          if balance < 0 then None
          else let matching_bands =
                     filter (\<lambda>r. Minimum r \<le> balance \<and> Maximum r \<ge> balance) bands
               in (case matching_bands of [] \<Rightarrow> None | r # _ \<Rightarrow> Some (band r)))"

text \<open>
  \<open>sort_values("Start Date")\<close> is taken here as a stable ascending sort: rows with
  the same start date keep their table order. pandas does not promise that for its default
  sort; \<open>get_interest_rate_f\<close> leaves the sort open.
\<close>

definition get_interest_rate :: "int \<Rightarrow> string \<Rightarrow> rate_row list option \<Rightarrow> rat" where
  "get_interest_rate target_date band_name rates_df =
     (case rates_df of
        None \<Rightarrow> 0
      | Some rates \<Rightarrow>
          if band_name = [] then 0
          else let applicable_rates =
                     sort_key Start_Date
                       (filter (\<lambda>r. Start_Date r \<le> target_date \<and> rate_band r = band_name) rates)
               in if applicable_rates = [] then 0 else rate (last applicable_rates))"

section \<open>The daily loop\<close>

record loop_state =
  balance :: rat
  total_interest :: rat
  log_rows :: "log_row list"

definition init_state :: loop_state where
  "init_state = \<lparr>balance = 0, total_interest = 0, log_rows = []\<rparr>"

text \<open>The body of the \<open>for\<close> loop of \<open>calculate_interest_with_steps\<close>.\<close>

definition steps_day ::
  "rate_row list \<Rightarrow> band_row list \<Rightarrow> (int \<rightharpoonup> rat) \<Rightarrow> int \<Rightarrow> loop_state \<Rightarrow> loop_state" where
  "steps_day rates bands trans_by_date current_date st =
     (let balance' = (case trans_by_date current_date of
                        Some c \<Rightarrow> balance st + c
                      | None \<Rightarrow> balance st);
          band = get_band_name bands balance';
          (rate, daily_interest, total_interest') =
            (if \<not> truthy band then (0, 0, total_interest st)
             else let rate = get_rate_for_date_and_band rates current_date (the band) / 100 / 365;
                      daily_interest = balance' * rate
                  in (rate, daily_interest, total_interest st + daily_interest))
      in \<lparr>balance = balance', total_interest = total_interest',
          log_rows = log_rows st @
            [\<lparr>log_Date = current_date,
              log_Balance = py_round balance' 2,
              log_Band = (if truthy band then the band else ''N/A''),
              log_Rate = py_round (rate * 365 * 100) 4,
              log_Daily_Interest = py_round daily_interest 6,
              log_Total_Interest = py_round total_interest' 6\<rparr>]\<rparr>)"

definition calculate_interest_with_steps ::
  "rate_row list \<Rightarrow> band_row list \<Rightarrow> transaction list \<Rightarrow> int \<Rightarrow> error + (log_row list \<times> rat)" where
  "calculate_interest_with_steps rates bands transactions_df end_date =
     (case date_range (min_date transactions_df) end_date of
        Inl e \<Rightarrow> Inl e
      | Inr dr \<Rightarrow>
          let trans_by_date = map_of (groupby_sum transactions_df);
              st = fold (steps_day rates bands trans_by_date) dr init_state
          in Inr (log_rows st, py_round (total_interest st) 2))"

text \<open>The body of the \<open>for\<close> loop of \<open>calculate_daily_interest\<close>.\<close>

definition daily_day ::
  "rate_row list option \<Rightarrow> band_row list option \<Rightarrow> (int \<rightharpoonup> rat) \<Rightarrow> int \<Rightarrow> loop_state \<Rightarrow> loop_state" where
  "daily_day rates_df bands_df daily_transactions current_date st =
     (let running_balance = (case daily_transactions current_date of
                               Some c \<Rightarrow> balance st + c
                             | None \<Rightarrow> balance st);
          current_band = get_band_for_balance running_balance bands_df;
          (annual_rate, daily_interest) =
            (if truthy current_band \<and> running_balance > 0
             then let annual_rate = get_interest_rate current_date (the current_band) rates_df;
                      daily_rate = annual_rate / 100 / 365
                  in (annual_rate, running_balance * daily_rate)
             else (0, 0));
          total_interest' = total_interest st + daily_interest
      in \<lparr>balance = running_balance, total_interest = total_interest',
          log_rows = log_rows st @
            [\<lparr>log_Date = current_date,
              log_Balance = py_round running_balance 2,
              log_Band = (if truthy current_band then the current_band else ''None''),
              log_Rate = py_round annual_rate 4,
              log_Daily_Interest = py_round daily_interest 6,
              log_Total_Interest = py_round total_interest' 6\<rparr>]\<rparr>)"

definition calculate_daily_interest ::
  "transaction list \<Rightarrow> int \<Rightarrow> rate_row list option \<Rightarrow> band_row list option
     \<Rightarrow> error + (log_row list \<times> rat)" where
  "calculate_daily_interest transactions_df end_date rates_df bands_df =
     (case date_range (min_date transactions_df) end_date of
        Inl e \<Rightarrow> Inl e
      | Inr dr \<Rightarrow>
          let daily_transactions = map_of (groupby_sum transactions_df);
              st = fold (daily_day rates_df bands_df daily_transactions) dr init_state
          in Inr (log_rows st, py_round (total_interest st) 2))"

section \<open>The engines over the operations of the runtime\<close>

text \<open>
  What the interpreter and pandas compute for the engine, taken as parameters:
  \<^item> \<open>f_add\<close>, \<open>f_mul\<close>, \<open>f_div\<close>: \<open>+\<close>, \<open>*\<close> and \<open>/\<close> on floats;
  \<^item> \<open>f_sum\<close>: the sum of one group of the \<open>Change\<close> column, in row order, as
    \<open>groupby("Date")["Change"].sum()\<close> computes it;
  \<^item> \<open>f_round\<close>: \<open>round(x, n)\<close>;
  \<^item> \<open>sort_values\<close>: \<open>sort_values("Start Date")\<close> on the applicable rate rows.

  Nothing is assumed about them. Comparisons and the literals \<open>0.0\<close>, \<open>100\<close> and
  \<open>365\<close> are exact. The lookups \<open>get_band_name\<close>, \<open>get_rate_for_date_and_band\<close>
  and \<open>get_band_for_balance\<close> only compare, so they are used as they are.
\<close>

record runtime =
  f_add :: "rat \<Rightarrow> rat \<Rightarrow> rat"
  f_mul :: "rat \<Rightarrow> rat \<Rightarrow> rat"
  f_div :: "rat \<Rightarrow> rat \<Rightarrow> rat"
  f_sum :: "rat list \<Rightarrow> rat"
  f_round :: "rat \<Rightarrow> nat \<Rightarrow> rat"
  sort_values :: "rate_row list \<Rightarrow> rate_row list"

definition groupby_sum_f :: "runtime \<Rightarrow> transaction list \<Rightarrow> (int \<times> rat) list" where
  "groupby_sum_f L transactions_df =
     map (\<lambda>d. (d, f_sum L (map Change (filter (\<lambda>t. Date t = d) transactions_df))))
       (sort (remdups (map Date transactions_df)))"

definition steps_day_f ::
  "runtime \<Rightarrow> rate_row list \<Rightarrow> band_row list \<Rightarrow> (int \<rightharpoonup> rat) \<Rightarrow> int \<Rightarrow> loop_state
     \<Rightarrow> loop_state" where
  "steps_day_f L rates bands trans_by_date current_date st =
     (let balance' = (case trans_by_date current_date of
                        Some c \<Rightarrow> f_add L (balance st) c
                      | None \<Rightarrow> balance st);
          band = get_band_name bands balance';
          (rate, daily_interest, total_interest') =
            (if \<not> truthy band then (0, 0, total_interest st)
             else let rate = f_div L (f_div L
                               (get_rate_for_date_and_band rates current_date (the band)) 100) 365;
                      daily_interest = f_mul L balance' rate
                  in (rate, daily_interest, f_add L (total_interest st) daily_interest))
      in \<lparr>balance = balance', total_interest = total_interest',
          log_rows = log_rows st @
            [\<lparr>log_Date = current_date,
              log_Balance = f_round L balance' 2,
              log_Band = (if truthy band then the band else ''N/A''),
              log_Rate = f_round L (f_mul L (f_mul L rate 365) 100) 4,
              log_Daily_Interest = f_round L daily_interest 6,
              log_Total_Interest = f_round L total_interest' 6\<rparr>]\<rparr>)"

definition calculate_interest_with_steps_f ::
  "runtime \<Rightarrow> rate_row list \<Rightarrow> band_row list \<Rightarrow> transaction list \<Rightarrow> int
     \<Rightarrow> error + (log_row list \<times> rat)" where
  "calculate_interest_with_steps_f L rates bands transactions_df end_date =
     (case date_range (min_date transactions_df) end_date of
        Inl e \<Rightarrow> Inl e
      | Inr dr \<Rightarrow>
          let trans_by_date = map_of (groupby_sum_f L transactions_df);
              st = fold (steps_day_f L rates bands trans_by_date) dr init_state
          in Inr (log_rows st, f_round L (total_interest st) 2))"

definition get_interest_rate_f ::
  "runtime \<Rightarrow> int \<Rightarrow> string \<Rightarrow> rate_row list option \<Rightarrow> rat" where
  "get_interest_rate_f L target_date band_name rates_df =
     (case rates_df of
        None \<Rightarrow> 0
      | Some rates \<Rightarrow>
          if band_name = [] then 0
          else let applicable_rates =
                     sort_values L
                       (filter (\<lambda>r. Start_Date r \<le> target_date \<and> rate_band r = band_name) rates)
               in if applicable_rates = [] then 0 else rate (last applicable_rates))"

definition daily_day_f ::
  "runtime \<Rightarrow> rate_row list option \<Rightarrow> band_row list option \<Rightarrow> (int \<rightharpoonup> rat) \<Rightarrow> int
     \<Rightarrow> loop_state \<Rightarrow> loop_state" where
  "daily_day_f L rates_df bands_df daily_transactions current_date st =
     (let running_balance = (case daily_transactions current_date of
                               Some c \<Rightarrow> f_add L (balance st) c
                             | None \<Rightarrow> balance st);
          current_band = get_band_for_balance running_balance bands_df;
          (annual_rate, daily_interest) =
            (if truthy current_band \<and> running_balance > 0
             then let annual_rate = get_interest_rate_f L current_date (the current_band) rates_df;
                      daily_rate = f_div L (f_div L annual_rate 100) 365
                  in (annual_rate, f_mul L running_balance daily_rate)
             else (0, 0));
          total_interest' = f_add L (total_interest st) daily_interest
      in \<lparr>balance = running_balance, total_interest = total_interest',
          log_rows = log_rows st @
            [\<lparr>log_Date = current_date,
              log_Balance = f_round L running_balance 2,
              log_Band = (if truthy current_band then the current_band else ''None''),
              log_Rate = f_round L annual_rate 4,
              log_Daily_Interest = f_round L daily_interest 6,
              log_Total_Interest = f_round L total_interest' 6\<rparr>]\<rparr>)"

definition calculate_daily_interest_f ::
  "runtime \<Rightarrow> transaction list \<Rightarrow> int \<Rightarrow> rate_row list option \<Rightarrow> band_row list option
     \<Rightarrow> error + (log_row list \<times> rat)" where
  "calculate_daily_interest_f L transactions_df end_date rates_df bands_df =
     (case date_range (min_date transactions_df) end_date of
        Inl e \<Rightarrow> Inl e
      | Inr dr \<Rightarrow>
          let daily_transactions = map_of (groupby_sum_f L transactions_df);
              st = fold (daily_day_f L rates_df bands_df daily_transactions) dr init_state
          in Inr (log_rows st, f_round L (total_interest st) 2))"

section \<open>The run of the accumulators\<close>

text \<open>
  The reference for same-day netting and for the two-tier precision: what the loop does
  to its two accumulators, with no call of \<open>round\<close> and no log. For each day of the
  range, in order: the amount recorded for that day, if any, is added to the balance,
  once; the band is looked up for the new balance; the rate and the daily interest are
  derived from it; the interest is added to the total. \<open>r_rate\<close> is the figure the
  rate column shows before it is rounded (\<open>rate * 365 * 100\<close> in
  \<open>calculate_interest_with_steps\<close>, \<open>annual_rate\<close> in
  \<open>calculate_daily_interest\<close>); \<open>r_total\<close> is the total after the day.
\<close>

record run_day =
  r_Date :: int
  r_balance :: rat
  r_band :: "string option"
  r_rate :: rat
  r_daily_interest :: rat
  r_total :: rat

fun steps_run ::
  "runtime \<Rightarrow> rate_row list \<Rightarrow> band_row list \<Rightarrow> (int \<rightharpoonup> rat) \<Rightarrow> rat \<Rightarrow> rat \<Rightarrow> int list
     \<Rightarrow> run_day list" where
  "steps_run L rates bands T b t [] = []"
| "steps_run L rates bands T b t (d # ds) =
     (let b' = (case T d of Some c \<Rightarrow> f_add L b c | None \<Rightarrow> b);
          bn = get_band_name bands b';
          rate = (if truthy bn
                  then f_div L (f_div L (get_rate_for_date_and_band rates d (the bn)) 100) 365
                  else 0);
          i = (if truthy bn then f_mul L b' rate else 0);
          t' = (if truthy bn then f_add L t i else t)
      in \<lparr>r_Date = d, r_balance = b', r_band = bn,
          r_rate = f_mul L (f_mul L rate 365) 100,
          r_daily_interest = i, r_total = t'\<rparr> # steps_run L rates bands T b' t' ds)"

fun daily_run ::
  "runtime \<Rightarrow> rate_row list option \<Rightarrow> band_row list option \<Rightarrow> (int \<rightharpoonup> rat) \<Rightarrow> rat \<Rightarrow> rat
     \<Rightarrow> int list \<Rightarrow> run_day list" where
  "daily_run L rates_df bands_df T b t [] = []"
| "daily_run L rates_df bands_df T b t (d # ds) =
     (let b' = (case T d of Some c \<Rightarrow> f_add L b c | None \<Rightarrow> b);
          bn = get_band_for_balance b' bands_df;
          a = (if truthy bn \<and> b' > 0 then get_interest_rate_f L d (the bn) rates_df else 0);
          i = (if truthy bn \<and> b' > 0 then f_mul L b' (f_div L (f_div L a 100) 365) else 0);
          t' = f_add L t i
      in \<lparr>r_Date = d, r_balance = b', r_band = bn, r_rate = a,
          r_daily_interest = i, r_total = t'\<rparr> # daily_run L rates_df bands_df T b' t' ds)"

text \<open>
  The log row shown for one day of a run: each figure rounded on its own, the balance
  to 2 decimals, the rate to 4, the daily interest and the total so far to 6.
  \<open>na\<close> is the text shown for a missing band.
\<close>

definition shown :: "runtime \<Rightarrow> string \<Rightarrow> run_day \<Rightarrow> log_row" where
  "shown L na x =
     \<lparr>log_Date = r_Date x,
      log_Balance = f_round L (r_balance x) 2,
      log_Band = (if truthy (r_band x) then the (r_band x) else na),
      log_Rate = f_round L (r_rate x) 4,
      log_Daily_Interest = f_round L (r_daily_interest x) 6,
      log_Total_Interest = f_round L (r_total x) 6\<rparr>"

section \<open>Two runtimes\<close>

text \<open>Exact arithmetic: the engines of the first presentation.\<close>

definition exact_runtime :: runtime where
  "exact_runtime =
     \<lparr>f_add = (+), f_mul = (*), f_div = (/), f_sum = sum_list, f_round = py_round,
      sort_values = sort_key Start_Date\<rparr>"

text \<open>
  IEEE 754 binary64 with round to nearest, ties to even. \<open>fl x\<close> is the float nearest
  to \<open>x\<close>: with \<open>2 ^ e \<le> |x| < 2 ^ (e + 1)\<close>, \<open>|x|\<close> is rounded to a multiple of
  \<open>2 ^ (e - 52)\<close>. The exponent is not bounded (no overflow, no subnormal numbers),
  and the two zeros are one number.
\<close>

definition pow2 :: "int \<Rightarrow> rat" where
  "pow2 k = (if 0 \<le> k then 2 ^ nat k else 1 / 2 ^ nat (- k))"

definition fl :: "rat \<Rightarrow> rat" where
  "fl x =
     (if x = 0 then 0
      else let a = \<bar>x\<bar>;
               (p, q) = quotient_of a;
               k = bitlen p - bitlen q;
               e = (if pow2 k \<le> a then k else k - 1);
               u = pow2 (e - 52)
           in sgn x * of_int (round_half_even (a / u)) * u)"

text \<open>
  The sum of one group of a float column as pandas accumulates it (\<open>group_sum\<close>):
  in row order, from 0.0, with Kahan compensation. Where a sum is evaluated below, plain
  addition from left to right gives the same number or the group has a single row.
\<close>

fun kahan :: "rat \<Rightarrow> rat \<Rightarrow> rat list \<Rightarrow> rat" where
  "kahan sumx compensation [] = sumx"
| "kahan sumx compensation (val # vals) =
     (let y = fl (val - compensation);
          t = fl (sumx + y);
          c = fl (fl (t - sumx) - y)
      in kahan t c vals)"

text \<open>
  The arithmetic of \<open>calculate_interest_with_steps\<close>: its numbers are Python floats
  (\<open>to_dict()\<close> hands out Python floats, \<open>float(...)\<close> converts the rate), every
  operation is correctly rounded, and \<open>round(x, n)\<close> rounds the exact value of \<open>x\<close> to
  \<open>n\<close> decimals, ties to even, and returns the float nearest to that decimal.
\<close>

definition python_float :: runtime where
  "python_float =
     \<lparr>f_add = (\<lambda>x y. fl (x + y)), f_mul = (\<lambda>x y. fl (x * y)), f_div = (\<lambda>x y. fl (x / y)),
      f_sum = kahan 0 0, f_round = (\<lambda>x n. fl (py_round x n)),
      sort_values = sort_key Start_Date\<rparr>"

section \<open>Band lookup\<close>

lemma filter_first_match:
  "\<forall>p\<in>set pre. \<not> P p \<Longrightarrow> P r \<Longrightarrow> filter P (pre @ r # post) = r # filter P post"
  by (induction pre) auto

text \<open>
  C7. When a non-negative balance lies in several band ranges, the lookup returns the band
  of the first matching range in table order: if no row before \<open>r\<close> contains the balance
  and \<open>r\<close> does, the result is the band of \<open>r\<close>, whatever follows \<open>r\<close>. This holds for
  \<open>get_band_name\<close> and for \<open>get_band_for_balance\<close>. For the table
  \<open>[{A,0,1000},{B,500,1500}]\<close> and the balance 700 the result is A (the witness).
\<close>

theorem band_first_match:
  assumes "\<forall>p\<in>set pre. \<not> (Minimum p \<le> bal \<and> bal \<le> Maximum p)"
    and "Minimum r \<le> bal" and "bal \<le> Maximum r" and "0 \<le> bal"
  shows "get_band_name (pre @ r # post) bal = Some (band r)
       \<and> get_band_for_balance bal (Some (pre @ r # post)) = Some (band r)"
proof -
  let ?P = "\<lambda>r. Minimum r \<le> bal \<and> Maximum r \<ge> bal"
  have "filter ?P (pre @ r # post) = r # filter ?P post"
    using assms(1-3) by (intro filter_first_match) auto
  then show ?thesis
    using assms(4) by (simp add: get_band_name_def get_band_for_balance_def)
qed

theorem band_first_match_witness:
  "get_band_name [\<lparr>band = ''A'', Minimum = 0, Maximum = 1000\<rparr>,
                  \<lparr>band = ''B'', Minimum = 500, Maximum = 1500\<rparr>] 700 = Some ''A''
   \<and> get_band_for_balance 700 (Some [\<lparr>band = ''A'', Minimum = 0, Maximum = 1000\<rparr>,
                  \<lparr>band = ''B'', Minimum = 500, Maximum = 1500\<rparr>]) = Some ''A''"
  using band_first_match [of "[]" 700 "\<lparr>band = ''A'', Minimum = 0, Maximum = 1000\<rparr>"
      "[\<lparr>band = ''B'', Minimum = 500, Maximum = 1500\<rparr>]"]
  by simp

section \<open>Date coverage of the log\<close>

lemma min_date_nonempty:
  "transactions_df \<noteq> [] \<Longrightarrow> min_date transactions_df = Some (Min (Date ` set transactions_df))"
  by (cases transactions_df) (simp_all add: min_date_def Min.set_eq_fold [symmetric])

lemma log_rows_steps_day:
  "map log_Date (log_rows (steps_day rates bands T d st)) = map log_Date (log_rows st) @ [d]"
  by (simp add: steps_day_def Let_def split: prod.splits)

lemma log_rows_daily_day:
  "map log_Date (log_rows (daily_day rates_df bands_df T d st)) = map log_Date (log_rows st) @ [d]"
  by (simp add: daily_day_def Let_def split: prod.splits)

lemma log_dates_steps_fold:
  "map log_Date (log_rows (fold (steps_day rates bands T) ds st)) = map log_Date (log_rows st) @ ds"
  by (induction ds arbitrary: st) (simp_all add: log_rows_steps_day)

lemma log_dates_daily_fold:
  "map log_Date (log_rows (fold (daily_day rates_df bands_df T) ds st)) =
     map log_Date (log_rows st) @ ds"
  by (induction ds arbitrary: st) (simp_all add: log_rows_daily_day)

text \<open>
  C5. For a non-empty transaction list both engines return a log whose dates are exactly
  the days from the earliest transaction date to the end date, inclusive, in ascending
  order: one row per day, no gap, no duplicate. The log has
  \<open>end_date - min + 1\<close> rows, and none when the end date precedes the first
  transaction.
\<close>

theorem log_covers_each_day_once:
  assumes "transactions_df \<noteq> []"
  shows "(\<exists>log total.
           calculate_interest_with_steps rates bands transactions_df end_date = Inr (log, total)
         \<and> map log_Date log = [Min (Date ` set transactions_df)..end_date]
         \<and> length log = nat (end_date - Min (Date ` set transactions_df) + 1))
       \<and> (\<exists>log total.
           calculate_daily_interest transactions_df end_date rates_df bands_df = Inr (log, total)
         \<and> map log_Date log = [Min (Date ` set transactions_df)..end_date]
         \<and> length log = nat (end_date - Min (Date ` set transactions_df) + 1))"
proof -
  let ?m = "Min (Date ` set transactions_df)"
  let ?s = "fold (steps_day rates bands (map_of (groupby_sum transactions_df)))
              [?m..end_date] init_state"
  let ?d = "fold (daily_day rates_df bands_df (map_of (groupby_sum transactions_df)))
              [?m..end_date] init_state"
  have s: "map log_Date (log_rows ?s) = [?m..end_date]"
    by (simp add: log_dates_steps_fold init_state_def)
  have d: "map log_Date (log_rows ?d) = [?m..end_date]"
    by (simp add: log_dates_daily_fold init_state_def)
  have "length (log_rows ?s) = length [?m..end_date]"
    using s by (metis length_map)
  moreover have "length (log_rows ?d) = length [?m..end_date]"
    using d by (metis length_map)
  moreover have "calculate_interest_with_steps rates bands transactions_df end_date =
      Inr (log_rows ?s, py_round (total_interest ?s) 2)"
    using assms
    by (simp add: calculate_interest_with_steps_def min_date_nonempty date_range_def Let_def)
  moreover have "calculate_daily_interest transactions_df end_date rates_df bands_df =
      Inr (log_rows ?d, py_round (total_interest ?d) 2)"
    using assms
    by (simp add: calculate_daily_interest_def min_date_nonempty date_range_def Let_def)
  ultimately show ?thesis
    using s d by simp
qed

theorem log_covers_each_day_once_witness:
  "[\<lparr>Date = 19358, Change = 1000\<rparr>] \<noteq> []
   \<and> (\<exists>log total.
         calculate_interest_with_steps [] [] [\<lparr>Date = 19358, Change = 1000\<rparr>] 19360
           = Inr (log, total)
       \<and> map log_Date log = [19358, 19359, 19360] \<and> length log = 3)
   \<and> (\<exists>log total.
         calculate_daily_interest [\<lparr>Date = 19358, Change = 1000\<rparr>] 19360 None None
           = Inr (log, total)
       \<and> map log_Date log = [19358, 19359, 19360] \<and> length log = 3)"
  using log_covers_each_day_once [of "[\<lparr>Date = 19358, Change = 1000\<rparr>]" "[]" "[]" 19360 None None]
  by (simp add: upto_rec1)

section \<open>Empty transaction list\<close>

text \<open>
  C10. With no transaction there is no minimum date: \<open>min()\<close> gives \<open>NaT\<close> and
  \<open>pd.date_range\<close> raises. Both engines fail with that error; neither returns a log
  or a total.
\<close>

theorem empty_transactions_raise:
  "calculate_interest_with_steps rates bands [] end_date = Inl ValueError
   \<and> calculate_daily_interest [] end_date rates_df bands_df = Inl ValueError"
  by (simp add: calculate_interest_with_steps_def calculate_daily_interest_def
      min_date_def date_range_def)

section \<open>Negative balances in the band lookup\<close>




section \<open>Rate lookup\<close>

text \<open>
  \<open>get_interest_rate\<close> sorts the applicable rows by start date before taking the
  last one, so it returns the rate of an applicable row with the latest start date, and
  0 when there is none.
\<close>

lemma sorted_le_last:
  "sorted xs \<Longrightarrow> x \<in> set xs \<Longrightarrow> x \<le> last (xs::int list)"
  by (induction xs) auto

lemma get_interest_rate_latest:
  assumes "band_name \<noteq> []"
    and "applicable = filter (\<lambda>r. Start_Date r \<le> target_date \<and> rate_band r = band_name) rates"
  shows "applicable = [] \<Longrightarrow> get_interest_rate target_date band_name (Some rates) = 0"
    and "applicable \<noteq> [] \<Longrightarrow>
         \<exists>r\<in>set applicable. get_interest_rate target_date band_name (Some rates) = rate r
           \<and> (\<forall>q\<in>set applicable. Start_Date q \<le> Start_Date r)"
proof -
  show "applicable = [] \<Longrightarrow> get_interest_rate target_date band_name (Some rates) = 0"
    using assms by (simp add: get_interest_rate_def)
next
  assume ne: "applicable \<noteq> []"
  let ?s = "sort_key Start_Date applicable"
  have sne: "?s \<noteq> []"
    using ne by (metis length_0_conv length_sort)
  have val: "get_interest_rate target_date band_name (Some rates) = rate (last ?s)"
    using assms sne by (simp add: get_interest_rate_def Let_def)
  have mem: "last ?s \<in> set applicable"
    using sne by (metis last_in_set set_sort)
  have "Start_Date q \<le> Start_Date (last ?s)" if "q \<in> set applicable" for q
  proof -
    have "sorted (map Start_Date ?s)" by simp
    moreover have "Start_Date q \<in> set (map Start_Date ?s)" using that by simp
    ultimately have "Start_Date q \<le> last (map Start_Date ?s)"
      by (rule sorted_le_last)
    then show ?thesis using sne by (simp add: last_map)
  qed
  then show "\<exists>r\<in>set applicable. get_interest_rate target_date band_name (Some rates) = rate r
           \<and> (\<forall>q\<in>set applicable. Start_Date q \<le> Start_Date r)"
    using val mem by blast
qed

text \<open>
  C3. The rate lookup should return the rate with the latest start date on or before
  the query date, whatever the order of the rows.
  \<open>get_rate_for_date_and_band\<close> takes the last applicable row in table order
  without sorting. With the row of 2023-06-01 (rate 2) listed before the row of
  2023-01-01 (rate 1), the lookup for 2023-07-01 returns 1, not the latest effective
  rate 2; with the rows in ascending order it returns 2. The result depends on the row
  order.
\<close>

theorem rate_lookup_takes_last_row:
  "get_rate_for_date_and_band
     [\<lparr>Start_Date = 19509, rate_band = ''A'', rate = 2\<rparr>,
      \<lparr>Start_Date = 19358, rate_band = ''A'', rate = 1\<rparr>] 19539 ''A'' = 1
 \<and> get_rate_for_date_and_band
     [\<lparr>Start_Date = 19358, rate_band = ''A'', rate = 1\<rparr>,
      \<lparr>Start_Date = 19509, rate_band = ''A'', rate = 2\<rparr>] 19539 ''A'' = 2"
  by (simp add: get_rate_for_date_and_band_def)

section \<open>Days with a balance of zero or below\<close>

text \<open>
  In \<open>calculate_daily_interest\<close> a day whose balance is zero or negative gets the
  annual rate 0 and the daily interest 0, and leaves the total unchanged, whatever the
  band table holds.
\<close>

lemma daily_day_nonpositive:
  assumes "(case T d of Some c \<Rightarrow> balance st + c | None \<Rightarrow> balance st) \<le> 0"
  shows "total_interest (daily_day rates_df bands_df T d st) = total_interest st"
    and "log_Rate (last (log_rows (daily_day rates_df bands_df T d st))) = 0"
    and "log_Daily_Interest (last (log_rows (daily_day rates_df bands_df T d st))) = 0"
  using assms by (simp_all add: daily_day_def Let_def py_round_def round_half_even_def)

text \<open>
  C1. On a day whose balance is zero or negative the engine should set the annual rate
  and the daily interest to 0 and add nothing to the total, whatever the band table
  holds. \<open>calculate_interest_with_steps\<close> has no check of the balance: on a day whose
  balance is exactly 0 and lies in the band \<open>Low = [0, 2000]\<close> it looks the rate up
  and logs 3.65 for that day (the daily interest is \<open>0 * rate = 0\<close>), where
  \<open>calculate_daily_interest\<close> logs the rate 0. Deposit of 1000 on 2023-01-01,
  withdrawal of 1000 on 2023-01-02, end date 2023-01-02.
\<close>

theorem steps_rate_at_zero_balance:
  "calculate_interest_with_steps
     [\<lparr>Start_Date = 19358, rate_band = ''Low'', rate = 365 / 100\<rparr>]
     [\<lparr>band = ''Low'', Minimum = 0, Maximum = 2000\<rparr>]
     [\<lparr>Date = 19358, Change = 1000\<rparr>, \<lparr>Date = 19359, Change = - 1000\<rparr>] 19359 =
   Inr ([\<lparr>log_Date = 19358, log_Balance = 1000, log_Band = ''Low'', log_Rate = 365 / 100,
          log_Daily_Interest = 1 / 10, log_Total_Interest = 1 / 10\<rparr>,
         \<lparr>log_Date = 19359, log_Balance = 0, log_Band = ''Low'', log_Rate = 365 / 100,
          log_Daily_Interest = 0, log_Total_Interest = 1 / 10\<rparr>], 10 / 100)
 \<and> calculate_daily_interest
     [\<lparr>Date = 19358, Change = 1000\<rparr>, \<lparr>Date = 19359, Change = - 1000\<rparr>] 19359
     (Some [\<lparr>Start_Date = 19358, rate_band = ''Low'', rate = 365 / 100\<rparr>])
     (Some [\<lparr>band = ''Low'', Minimum = 0, Maximum = 2000\<rparr>]) =
   Inr ([\<lparr>log_Date = 19358, log_Balance = 1000, log_Band = ''Low'', log_Rate = 365 / 100,
          log_Daily_Interest = 1 / 10, log_Total_Interest = 1 / 10\<rparr>,
         \<lparr>log_Date = 19359, log_Balance = 0, log_Band = ''Low'', log_Rate = 0,
          log_Daily_Interest = 0, log_Total_Interest = 1 / 10\<rparr>], 10 / 100)"
  by code_simp

section \<open>End-to-end example\<close>

text \<open>
  C2. One deposit of 1000 on 2023-01-01 (day 19358), end date 2023-01-03, band
  \<open>Low = [0, 2000]\<close>, rate 3.65 from 2023-01-01: both engines return three rows, each
  with balance 1000 and daily interest 0.1, cumulative interest 0.1, 0.2 and 0.3, and the
  total 0.30.
\<close>

theorem end_to_end_example:
  "calculate_interest_with_steps
     [\<lparr>Start_Date = 19358, rate_band = ''Low'', rate = 365 / 100\<rparr>]
     [\<lparr>band = ''Low'', Minimum = 0, Maximum = 2000\<rparr>]
     [\<lparr>Date = 19358, Change = 1000\<rparr>] 19360 =
   Inr ([\<lparr>log_Date = 19358, log_Balance = 1000, log_Band = ''Low'', log_Rate = 365 / 100,
          log_Daily_Interest = 1 / 10, log_Total_Interest = 1 / 10\<rparr>,
         \<lparr>log_Date = 19359, log_Balance = 1000, log_Band = ''Low'', log_Rate = 365 / 100,
          log_Daily_Interest = 1 / 10, log_Total_Interest = 2 / 10\<rparr>,
         \<lparr>log_Date = 19360, log_Balance = 1000, log_Band = ''Low'', log_Rate = 365 / 100,
          log_Daily_Interest = 1 / 10, log_Total_Interest = 3 / 10\<rparr>], 30 / 100)
 \<and> calculate_daily_interest [\<lparr>Date = 19358, Change = 1000\<rparr>] 19360
     (Some [\<lparr>Start_Date = 19358, rate_band = ''Low'', rate = 365 / 100\<rparr>])
     (Some [\<lparr>band = ''Low'', Minimum = 0, Maximum = 2000\<rparr>]) =
   Inr ([\<lparr>log_Date = 19358, log_Balance = 1000, log_Band = ''Low'', log_Rate = 365 / 100,
          log_Daily_Interest = 1 / 10, log_Total_Interest = 1 / 10\<rparr>,
         \<lparr>log_Date = 19359, log_Balance = 1000, log_Band = ''Low'', log_Rate = 365 / 100,
          log_Daily_Interest = 1 / 10, log_Total_Interest = 2 / 10\<rparr>,
         \<lparr>log_Date = 19360, log_Balance = 1000, log_Band = ''Low'', log_Rate = 365 / 100,
          log_Daily_Interest = 1 / 10, log_Total_Interest = 3 / 10\<rparr>], 30 / 100)"
  by code_simp

section \<open>The two families on the same input\<close>

text \<open>
  C9. All copies of the engine should return the same log values and the same total on
  the same input. The two families do not. With the rate rows listed newest
  first (7.3 from 2023-06-01, then 3.65 from 2023-01-01) and a deposit of 1000 on
  2023-07-01, \<open>calculate_interest_with_steps\<close> applies 3.65 and returns the total
  0.10, while \<open>calculate_daily_interest\<close> applies 7.3 and returns 0.20.
\<close>

theorem engines_disagree:
  "calculate_interest_with_steps
     [\<lparr>Start_Date = 19509, rate_band = ''A'', rate = 730 / 100\<rparr>,
      \<lparr>Start_Date = 19358, rate_band = ''A'', rate = 365 / 100\<rparr>]
     [\<lparr>band = ''A'', Minimum = 0, Maximum = 2000\<rparr>]
     [\<lparr>Date = 19539, Change = 1000\<rparr>] 19539 =
   Inr ([\<lparr>log_Date = 19539, log_Balance = 1000, log_Band = ''A'', log_Rate = 365 / 100,
          log_Daily_Interest = 1 / 10, log_Total_Interest = 1 / 10\<rparr>], 10 / 100)
 \<and> calculate_daily_interest [\<lparr>Date = 19539, Change = 1000\<rparr>] 19539
     (Some [\<lparr>Start_Date = 19509, rate_band = ''A'', rate = 730 / 100\<rparr>,
            \<lparr>Start_Date = 19358, rate_band = ''A'', rate = 365 / 100\<rparr>])
     (Some [\<lparr>band = ''A'', Minimum = 0, Maximum = 2000\<rparr>]) =
   Inr ([\<lparr>log_Date = 19539, log_Balance = 1000, log_Band = ''A'', log_Rate = 730 / 100,
          log_Daily_Interest = 2 / 10, log_Total_Interest = 2 / 10\<rparr>], 20 / 100)"
  by code_simp

section \<open>The engines and the run of the accumulators\<close>

lemma steps_fold_run:
  "fold (steps_day_f L rates bands T) ds st =
     (let xs = steps_run L rates bands T (balance st) (total_interest st) ds
      in \<lparr>balance = last (balance st # map r_balance xs),
          total_interest = last (total_interest st # map r_total xs),
          log_rows = log_rows st @ map (shown L ''N/A'') xs\<rparr>)"
proof (induction ds arbitrary: st)
  case Nil
  show ?case by simp
next
  case (Cons d ds)
  show ?case
    apply (simp only: fold_simps Cons.IH)
    apply (simp add: steps_day_f_def shown_def Let_def)
    done
qed

lemma daily_fold_run:
  "fold (daily_day_f L rates_df bands_df T) ds st =
     (let xs = daily_run L rates_df bands_df T (balance st) (total_interest st) ds
      in \<lparr>balance = last (balance st # map r_balance xs),
          total_interest = last (total_interest st # map r_total xs),
          log_rows = log_rows st @ map (shown L ''None'') xs\<rparr>)"
proof (induction ds arbitrary: st)
  case Nil
  show ?case by simp
next
  case (Cons d ds)
  show ?case
    apply (simp only: fold_simps Cons.IH)
    apply (simp add: daily_day_f_def shown_def Let_def)
    done
qed

lemma steps_result_run:
  assumes "transactions_df \<noteq> []"
  shows "calculate_interest_with_steps_f L rates bands transactions_df end_date =
     (let xs = steps_run L rates bands (map_of (groupby_sum_f L transactions_df)) 0 0
                 [Min (Date ` set transactions_df)..end_date]
      in Inr (map (shown L ''N/A'') xs, f_round L (last (0 # map r_total xs)) 2))"
  using assms
  by (simp add: calculate_interest_with_steps_f_def min_date_nonempty date_range_def Let_def
      steps_fold_run init_state_def)

lemma daily_result_run:
  assumes "transactions_df \<noteq> []"
  shows "calculate_daily_interest_f L transactions_df end_date rates_df bands_df =
     (let xs = daily_run L rates_df bands_df (map_of (groupby_sum_f L transactions_df)) 0 0
                 [Min (Date ` set transactions_df)..end_date]
      in Inr (map (shown L ''None'') xs, f_round L (last (0 # map r_total xs)) 2))"
  using assms
  by (simp add: calculate_daily_interest_f_def min_date_nonempty date_range_def Let_def
      daily_fold_run init_state_def)

section \<open>The exact runtime\<close>

text \<open>
  With exact arithmetic as runtime the engines of the second presentation are those of
  the first.
\<close>

lemma exact_runtime_ops:
  "f_add exact_runtime = (+)" "f_mul exact_runtime = (*)" "f_div exact_runtime = (/)"
  "f_sum exact_runtime = sum_list" "f_round exact_runtime = py_round"
  "sort_values exact_runtime = sort_key Start_Date"
  by (simp_all add: exact_runtime_def)

lemma groupby_sum_exact:
  "groupby_sum_f exact_runtime transactions_df = groupby_sum transactions_df"
  by (simp add: groupby_sum_f_def groupby_sum_def exact_runtime_ops)

lemma steps_day_exact:
  "steps_day_f exact_runtime rates bands T d st = steps_day rates bands T d st"
  by (simp add: steps_day_f_def steps_day_def exact_runtime_ops Let_def
      cong: option.case_cong if_cong)

lemma get_interest_rate_exact:
  "get_interest_rate_f exact_runtime d bn rates_df = get_interest_rate d bn rates_df"
  by (simp add: get_interest_rate_f_def get_interest_rate_def exact_runtime_ops
      split: option.splits)

lemma daily_day_exact:
  "daily_day_f exact_runtime rates_df bands_df T d st = daily_day rates_df bands_df T d st"
  by (simp add: daily_day_f_def daily_day_def get_interest_rate_exact exact_runtime_ops Let_def
      cong: option.case_cong if_cong)

lemma calculate_interest_with_steps_exact:
  "calculate_interest_with_steps_f exact_runtime rates bands transactions_df end_date =
   calculate_interest_with_steps rates bands transactions_df end_date"
proof -
  have "steps_day_f exact_runtime rates bands T = steps_day rates bands T" for T
    by (intro ext) (rule steps_day_exact)
  then show ?thesis
    by (simp add: calculate_interest_with_steps_f_def calculate_interest_with_steps_def
        groupby_sum_exact exact_runtime_ops Let_def split: sum.splits)
qed

lemma calculate_daily_interest_exact:
  "calculate_daily_interest_f exact_runtime transactions_df end_date rates_df bands_df =
   calculate_daily_interest transactions_df end_date rates_df bands_df"
proof -
  have "daily_day_f exact_runtime rates_df bands_df T = daily_day rates_df bands_df T" for T
    by (intro ext) (rule daily_day_exact)
  then show ?thesis
    by (simp add: calculate_daily_interest_f_def calculate_daily_interest_def
        groupby_sum_exact exact_runtime_ops Let_def split: sum.splits)
qed

section \<open>Same-day netting\<close>

lemma sort_remdups_cong:
  "set xs = set ys \<Longrightarrow> sort (remdups xs) = sort (remdups (ys::int list))"
  by (metis sorted_list_of_set_sort_remdups)

lemma map_of_keyed:
  "map_of (map (\<lambda>k. (k, f k)) ks) k = (if k \<in> set ks then Some (f k) else None)"
  by (induction ks) auto

lemma groupby_sum_f_lookup:
  "map_of (groupby_sum_f L transactions_df) k =
     (if k \<in> Date ` set transactions_df
      then Some (f_sum L (map Change (filter (\<lambda>t. Date t = k) transactions_df)))
      else None)"
  by (simp add: groupby_sum_f_def map_of_keyed)

lemma groupby_sum_f_netting:
  assumes "f_sum L (map Change (filter (\<lambda>t. Date t = d)
             (pre @ \<lparr>Date = d, Change = x\<rparr> # mid @ \<lparr>Date = d, Change = y\<rparr> # post))) =
           f_sum L (map Change (filter (\<lambda>t. Date t = d)
             (pre @ \<lparr>Date = d, Change = z\<rparr> # mid @ post)))"
  shows "groupby_sum_f L (pre @ \<lparr>Date = d, Change = x\<rparr> # mid @ \<lparr>Date = d, Change = y\<rparr> # post) =
         groupby_sum_f L (pre @ \<lparr>Date = d, Change = z\<rparr> # mid @ post)"
proof -
  let ?l = "pre @ \<lparr>Date = d, Change = x\<rparr> # mid @ \<lparr>Date = d, Change = y\<rparr> # post"
  let ?r = "pre @ \<lparr>Date = d, Change = z\<rparr> # mid @ post"
  have keys: "sort (remdups (map Date ?l)) = sort (remdups (map Date ?r))"
    by (rule sort_remdups_cong) auto
  have other: "filter (\<lambda>t. Date t = k) ?l = filter (\<lambda>t. Date t = k) ?r" if "k \<noteq> d" for k
    using that by simp
  have "f_sum L (map Change (filter (\<lambda>t. Date t = k) ?l)) =
        f_sum L (map Change (filter (\<lambda>t. Date t = k) ?r))" for k
  proof (cases "k = d")
    case True
    with assms show ?thesis by simp
  next
    case False
    from other [OF this] show ?thesis by simp
  qed
  then show ?thesis
    unfolding groupby_sum_f_def keys by simp
qed

lemma min_date_netting:
  "min_date (pre @ \<lparr>Date = d, Change = x\<rparr> # mid @ \<lparr>Date = d, Change = y\<rparr> # post) =
   min_date (pre @ \<lparr>Date = d, Change = z\<rparr> # mid @ post)"
proof -
  have "Date ` set (pre @ \<lparr>Date = d, Change = x\<rparr> # mid @ \<lparr>Date = d, Change = y\<rparr> # post) =
        Date ` set (pre @ \<lparr>Date = d, Change = z\<rparr> # mid @ post)"
    by auto
  then show ?thesis
    by (simp add: min_date_nonempty)
qed

text \<open>
  C6 (as amended). Same-day netting, for whatever the floating-point operations compute.
  The loop sees one amount per date, the sum of that date's amounts as
  \<open>groupby("Date").sum()\<close> computes it, and each engine returns the rounded view of
  the run in which that one amount is added to the balance once, before the band, the
  rate and the interest of that day are derived from the new balance. Replacing two
  transactions \<open>(d, x)\<close> and \<open>(d, y)\<close> by \<open>(d, x + y)\<close> leaves the log and the
  total of both engines unchanged whenever it leaves the computed sum of date \<open>d\<close>
  unchanged.
\<close>

theorem same_day_netting:
  assumes "f_sum L (map Change (filter (\<lambda>t. Date t = d)
             (pre @ \<lparr>Date = d, Change = x\<rparr> # mid @ \<lparr>Date = d, Change = y\<rparr> # post))) =
           f_sum L (map Change (filter (\<lambda>t. Date t = d)
             (pre @ \<lparr>Date = d, Change = f_add L x y\<rparr> # mid @ post)))"
  shows "calculate_interest_with_steps_f L rates bands
           (pre @ \<lparr>Date = d, Change = x\<rparr> # mid @ \<lparr>Date = d, Change = y\<rparr> # post) end_date =
         calculate_interest_with_steps_f L rates bands
           (pre @ \<lparr>Date = d, Change = f_add L x y\<rparr> # mid @ post) end_date
       \<and> calculate_daily_interest_f L
           (pre @ \<lparr>Date = d, Change = x\<rparr> # mid @ \<lparr>Date = d, Change = y\<rparr> # post) end_date
           rates_df bands_df =
         calculate_daily_interest_f L
           (pre @ \<lparr>Date = d, Change = f_add L x y\<rparr> # mid @ post) end_date rates_df bands_df
       \<and> (let ledger = pre @ \<lparr>Date = d, Change = x\<rparr> # mid @ \<lparr>Date = d, Change = y\<rparr> # post;
               T = map_of (groupby_sum_f L ledger);
               dr = [Min (Date ` set ledger)..end_date];
               xs = steps_run L rates bands T 0 0 dr;
               ys = daily_run L rates_df bands_df T 0 0 dr
           in T d = Some (f_sum L (map Change (filter (\<lambda>t. Date t = d) ledger)))
            \<and> calculate_interest_with_steps_f L rates bands ledger end_date =
                Inr (map (shown L ''N/A'') xs, f_round L (last (0 # map r_total xs)) 2)
            \<and> calculate_daily_interest_f L ledger end_date rates_df bands_df =
                Inr (map (shown L ''None'') ys, f_round L (last (0 # map r_total ys)) 2))"
proof -
  let ?old = "pre @ \<lparr>Date = d, Change = x\<rparr> # mid @ \<lparr>Date = d, Change = y\<rparr> # post"
  let ?new = "pre @ \<lparr>Date = d, Change = f_add L x y\<rparr> # mid @ post"
  have g: "groupby_sum_f L ?old = groupby_sum_f L ?new"
    using assms by (rule groupby_sum_f_netting)
  have m: "min_date ?old = min_date ?new"
    by (rule min_date_netting)
  have ne: "?old \<noteq> []"
    by simp
  have 1: "calculate_interest_with_steps_f L rates bands ?old end_date =
           calculate_interest_with_steps_f L rates bands ?new end_date"
    unfolding calculate_interest_with_steps_f_def g m by (rule refl)
  have 2: "calculate_daily_interest_f L ?old end_date rates_df bands_df =
           calculate_daily_interest_f L ?new end_date rates_df bands_df"
    unfolding calculate_daily_interest_f_def g m by (rule refl)
  have 3: "map_of (groupby_sum_f L ?old) d =
           Some (f_sum L (map Change (filter (\<lambda>t. Date t = d) ?old)))"
    by (simp add: groupby_sum_f_lookup)
  note 4 = steps_result_run [OF ne, of L rates bands end_date, unfolded Let_def]
  note 5 = daily_result_run [OF ne, of L end_date rates_df bands_df, unfolded Let_def]
  show ?thesis
    unfolding Let_def
    by (intro conjI; (rule 1 | rule 2 | rule 3 | rule 4 | rule 5))
qed

section \<open>Two-tier precision\<close>

lemma groupby_sum_f_round:
  "groupby_sum_f (L\<lparr>f_round := r\<rparr>) transactions_df = groupby_sum_f L transactions_df"
  by (simp add: groupby_sum_f_def)

lemma get_interest_rate_f_round:
  "get_interest_rate_f (L\<lparr>f_round := r\<rparr>) d bn rates_df = get_interest_rate_f L d bn rates_df"
  by (simp add: get_interest_rate_f_def split: option.splits)

lemma steps_run_unrounded:
  "steps_run (L\<lparr>f_round := r\<rparr>) rates bands T b t ds = steps_run L rates bands T b t ds"
  by (induction ds arbitrary: b t) (simp_all add: Let_def cong: option.case_cong)

lemma daily_run_unrounded:
  "daily_run (L\<lparr>f_round := r\<rparr>) rates_df bands_df T b t ds =
   daily_run L rates_df bands_df T b t ds"
  by (induction ds arbitrary: b t)
    (simp_all add: Let_def get_interest_rate_f_round cong: option.case_cong)

lemma length_steps_run:
  "length (steps_run L rates bands T b t ds) = length ds"
  by (induction ds arbitrary: b t) (simp_all add: Let_def)

lemma length_daily_run:
  "length (daily_run L rates_df bands_df T b t ds) = length ds"
  by (induction ds arbitrary: b t) (simp_all add: Let_def)

lemma steps_run_total:
  "k < length ds \<Longrightarrow>
   r_total (steps_run L rates bands T b t ds ! k) =
     foldl (f_add L) t (map r_daily_interest
       (filter (\<lambda>x. truthy (r_band x)) (take (Suc k) (steps_run L rates bands T b t ds))))"
proof (induction ds arbitrary: b t k)
  case Nil
  then show ?case by simp
next
  case (Cons d ds)
  show ?case
  proof (cases k)
    case 0
    then show ?thesis by (simp add: Let_def)
  next
    case (Suc j)
    with Cons.prems have "j < length ds" by simp
    with Suc show ?thesis
      by (simp add: Let_def Cons.IH)
  qed
qed

lemma daily_run_total:
  "k < length ds \<Longrightarrow>
   r_total (daily_run L rates_df bands_df T b t ds ! k) =
     foldl (f_add L) t
       (map r_daily_interest (take (Suc k) (daily_run L rates_df bands_df T b t ds)))"
proof (induction ds arbitrary: b t k)
  case Nil
  then show ?case by simp
next
  case (Cons d ds)
  show ?case
  proof (cases k)
    case 0
    then show ?thesis by (simp add: Let_def)
  next
    case (Suc j)
    with Cons.prems have "j < length ds" by simp
    with Suc show ?thesis
      by (simp add: Let_def Cons.IH)
  qed
qed

text \<open>
  C8. Two-tier precision, for whatever the floating-point operations and \<open>round\<close>
  compute. Each engine returns the rounded view of the run of its accumulators: row
  \<open>k\<close> of the log is day \<open>k\<close> of the run with the balance rounded to 2 decimals,
  the rate to 4, the daily interest and the total so far to 6, and the returned total is
  the last total of the run rounded to 2 decimals. The run itself is the same whatever
  \<open>round\<close> is: no rounded value enters the balance or the total. The total of day
  \<open>k\<close> is the running sum of the unrounded daily interests up to that day, added
  in day order (in \<open>calculate_interest_with_steps\<close> over the days that have a band).
\<close>

theorem two_tier_precision:
  assumes "transactions_df \<noteq> []"
  shows "(let xs = steps_run L rates bands (map_of (groupby_sum_f L transactions_df)) 0 0
                     [Min (Date ` set transactions_df)..end_date]
          in calculate_interest_with_steps_f L rates bands transactions_df end_date =
               Inr (map (shown L ''N/A'') xs, f_round L (last (0 # map r_total xs)) 2)
           \<and> steps_run (L\<lparr>f_round := r\<rparr>) rates bands
                 (map_of (groupby_sum_f (L\<lparr>f_round := r\<rparr>) transactions_df)) 0 0
                 [Min (Date ` set transactions_df)..end_date] = xs
           \<and> (\<forall>k<length xs. r_total (xs ! k) =
                 foldl (f_add L) 0 (map r_daily_interest
                   (filter (\<lambda>x. truthy (r_band x)) (take (Suc k) xs)))))
       \<and> (let xs = daily_run L rates_df bands_df (map_of (groupby_sum_f L transactions_df)) 0 0
                     [Min (Date ` set transactions_df)..end_date]
          in calculate_daily_interest_f L transactions_df end_date rates_df bands_df =
               Inr (map (shown L ''None'') xs, f_round L (last (0 # map r_total xs)) 2)
           \<and> daily_run (L\<lparr>f_round := r\<rparr>) rates_df bands_df
                 (map_of (groupby_sum_f (L\<lparr>f_round := r\<rparr>) transactions_df)) 0 0
                 [Min (Date ` set transactions_df)..end_date] = xs
           \<and> (\<forall>k<length xs. r_total (xs ! k) =
                 foldl (f_add L) 0 (map r_daily_interest (take (Suc k) xs))))"
  using steps_result_run [OF assms, of L rates bands end_date]
    daily_result_run [OF assms, of L end_date rates_df bands_df]
  by (simp add: Let_def groupby_sum_f_round steps_run_unrounded daily_run_unrounded
      steps_run_total daily_run_total length_steps_run length_daily_run)

section \<open>The engine in Python floats\<close>

text \<open>
  Values of \<open>fl\<close> and of the decimal rounding at the numbers met below, each
  computed from the definitions.
\<close>

lemma fl_values:
  "fl (73 / 20) = 8219069319951155 / 2251799813685248"
  "fl (7 / 10) = 3152519739159347 / 4503599627370496"
  "fl (- (3 / 10)) = - (5404319552844595 / 18014398509481984)"
  "fl (- (2 / 5)) = - (3602879701896397 / 9007199254740992)"
  "fl (3152519739159347 / 4503599627370496) = 3152519739159347 / 4503599627370496"
  "fl (- (5404319552844595 / 18014398509481984)) = - (5404319552844595 / 18014398509481984)"
  "fl (7205759403792793 / 18014398509481984) = 7205759403792793 / 18014398509481984"
  "fl (- (3602879701896397 / 9007199254740992)) = - (3602879701896397 / 9007199254740992)"
  "fl (- (1 / 18014398509481984)) = - (1 / 18014398509481984)"
  "fl (- (12610078956637389 / 18014398509481984)) = - (3152519739159347 / 4503599627370496)"
  "fl (- (3152519739159347 / 4503599627370496)) = - (3152519739159347 / 4503599627370496)"
  "fl (1643813863990231 / 45035996273704960) = 5260204364768739 / 144115188075855872"
  "fl (5260204364768739 / 52602043647687393280) = 1844674407370955 / 18446744073709551616"
  "fl (673306158690398575 / 18446744073709551616) = 5260204364768739 / 144115188075855872"
  "fl (131505109119218475 / 36028797018963968) = 8219069319951155 / 2251799813685248"
  "fl (1 / 10) = 3602879701896397 / 36028797018963968"
  "fl (1 / 5) = 3602879701896397 / 18014398509481984"
  "fl (10808639105689191 / 36028797018963968) = 1351079888211149 / 4503599627370496"
  "fl (3602879701896397 / 36028797018963968) = 3602879701896397 / 36028797018963968"
  "fl (3602879701896397 / 18014398509481984) = 3602879701896397 / 18014398509481984"
  "fl (7205759403792795 / 36028797018963968) = 7205759403792795 / 36028797018963968"
  "fl (1 / 36028797018963968) = 1 / 36028797018963968"
  "fl (1351079888211149 / 4503599627370496) = 1351079888211149 / 4503599627370496"
  "fl (150) = 150"
  "fl (138350580552821625 / 9223372036854775808) = 1080863910568919 / 72057594037927936"
  "fl (1080863910568919 / 72057594037927936) = 1080863910568919 / 72057594037927936"
  "fl (3 / 200) = 1080863910568919 / 72057594037927936"
  "fl (1 / 100) = 5764607523034235 / 576460752303423488"
  "fl (1000) = 1000"
  "fl (230584300921369375 / 2305843009213693952) = 7205759403792793 / 72057594037927936"
  "fl (7205759403792793 / 72057594037927936) = 7205759403792793 / 72057594037927936"
  "fl (7205759403792793 / 36028797018963968) = 7205759403792793 / 36028797018963968"
  "fl (21617278211378379 / 72057594037927936) = 5404319552844595 / 18014398509481984"
  "fl (3 / 10) = 5404319552844595 / 18014398509481984"
  by code_simp+

lemma py_round_values:
  "py_round (- (1 / 18014398509481984)) 2 = 0"
  "py_round (8219069319951155 / 2251799813685248) 4 = 73 / 20"
  "py_round (150) 2 = 150"
  "py_round (1080863910568919 / 72057594037927936) 6 = 3 / 200"
  "py_round (1080863910568919 / 72057594037927936) 2 = 1 / 100"
  "py_round (1000) 2 = 1000"
  "py_round (7205759403792793 / 72057594037927936) 6 = 1 / 10"
  "py_round (7205759403792793 / 36028797018963968) 6 = 1 / 5"
  "py_round (5404319552844595 / 18014398509481984) 6 = 3 / 10"
  "py_round (5404319552844595 / 18014398509481984) 2 = 3 / 10"
  by code_simp+

lemma fl_0: "fl 0 = 0"
  by (simp add: fl_def)

lemma py_round_0: "py_round 0 n = 0"
  by (simp add: py_round_def round_half_even_def)

lemmas steps_f_eval = calculate_interest_with_steps_f_def min_date_def date_range_def
  groupby_sum_f_def python_float_def steps_day_f_def get_band_name_def
  get_rate_for_date_and_band_def truthy_def init_state_def Let_def fl_0 py_round_0
  fl_values py_round_values

text \<open>
  The deposit 0.70 and the withdrawals 0.30 and 0.40 of one day: the column sum of the
  three floats is \<open>-2^-54\<close>, with Kahan compensation as with plain addition from left
  to right, while 0.70 and the netted withdrawal \<open>-0.3 + -0.4 = -0.7\<close> sum to 0.
\<close>

lemma netting_changes_sum:
  "kahan 0 0 [fl (7 / 10), fl (- (3 / 10)), fl (- (4 / 10))] = - (1 / 18014398509481984)"
  "foldl (\<lambda>s v. fl (s + v)) 0 [fl (7 / 10), fl (- (3 / 10)), fl (- (4 / 10))] = - (1 / 18014398509481984)"
  "kahan 0 0 [fl (7 / 10), fl (fl (- (3 / 10)) + fl (- (4 / 10)))] = 0"
  by (simp_all add: Let_def fl_0 fl_values)

text \<open>
  The unqualified form of C6, that replacing \<open>(d, x)\<close> and \<open>(d, y)\<close> by
  \<open>(d, x + y)\<close> never changes the output, fails in floating point. With the deposit
  0.70 and the withdrawals 0.30 and 0.40 on 2023-01-01 the balance of the day is
  \<open>-2^-54\<close>: below every band, so the row shows no band and the rate 0. With the two
  withdrawals replaced by their float sum -0.7 the balance is 0, inside the band
  \<open>Low = [0, 2000]\<close>, and the row shows Low and its rate 3.65.
\<close>

theorem netting_changes_output:
  "calculate_interest_with_steps_f python_float
     [\<lparr>Start_Date = 19358, rate_band = ''Low'', rate = fl (365 / 100)\<rparr>]
     [\<lparr>band = ''Low'', Minimum = 0, Maximum = 2000\<rparr>]
     [\<lparr>Date = 19358, Change = fl (7 / 10)\<rparr>,
      \<lparr>Date = 19358, Change = fl (- (3 / 10))\<rparr>,
      \<lparr>Date = 19358, Change = fl (- (4 / 10))\<rparr>] 19358 =
   Inr ([\<lparr>log_Date = 19358, log_Balance = 0, log_Band = ''N/A'', log_Rate = 0,
          log_Daily_Interest = 0, log_Total_Interest = 0\<rparr>], 0)
 \<and> calculate_interest_with_steps_f python_float
     [\<lparr>Start_Date = 19358, rate_band = ''Low'', rate = fl (365 / 100)\<rparr>]
     [\<lparr>band = ''Low'', Minimum = 0, Maximum = 2000\<rparr>]
     [\<lparr>Date = 19358, Change = fl (7 / 10)\<rparr>,
      \<lparr>Date = 19358, Change = f_add python_float (fl (- (3 / 10))) (fl (- (4 / 10)))\<rparr>] 19358 =
   Inr ([\<lparr>log_Date = 19358, log_Balance = 0, log_Band = ''Low'', log_Rate = fl (365 / 100),
          log_Daily_Interest = 0, log_Total_Interest = 0\<rparr>], 0)"
  by (simp add: steps_f_eval)

text \<open>
  One deposit of 150 at 3.65 for one day: the unrounded interest is the float nearest to
  0.015, which lies just below it, so the row shows 0.015 and the returned total is 0.01.
\<close>

lemma deposit_150_run:
  "steps_run python_float
     [\<lparr>Start_Date = 19358, rate_band = ''Low'', rate = fl (365 / 100)\<rparr>]
     [\<lparr>band = ''Low'', Minimum = 0, Maximum = 2000\<rparr>]
     (map_of (groupby_sum_f python_float [\<lparr>Date = 19358, Change = 150\<rparr>])) 0 0
     [Min (Date ` set [\<lparr>Date = 19358, Change = 150\<rparr>])..19358] =
   [\<lparr>r_Date = 19358, r_balance = 150, r_band = Some ''Low'',
      r_rate = 8219069319951155 / 2251799813685248,
      r_daily_interest = 1080863910568919 / 72057594037927936,
      r_total = 1080863910568919 / 72057594037927936\<rparr>]"
  by (simp add: groupby_sum_f_def python_float_def get_band_name_def
      get_rate_for_date_and_band_def truthy_def Let_def fl_0 fl_values)

theorem two_tier_precision_witness:
  "[\<lparr>Date = 19358, Change = 150\<rparr>] \<noteq> []
   \<and> calculate_interest_with_steps_f python_float
       [\<lparr>Start_Date = 19358, rate_band = ''Low'', rate = fl (365 / 100)\<rparr>]
       [\<lparr>band = ''Low'', Minimum = 0, Maximum = 2000\<rparr>]
       [\<lparr>Date = 19358, Change = 150\<rparr>] 19358 =
     Inr ([\<lparr>log_Date = 19358, log_Balance = 150, log_Band = ''Low'', log_Rate = fl (365 / 100),
          log_Daily_Interest = fl (15 / 1000), log_Total_Interest = fl (15 / 1000)\<rparr>], fl (1 / 100))"
proof -
  have ne: "[\<lparr>Date = 19358, Change = 150\<rparr>] \<noteq> []"
    by simp
  note t = two_tier_precision [OF ne, of python_float
      "[\<lparr>Start_Date = 19358, rate_band = ''Low'', rate = fl (365 / 100)\<rparr>]"
      "[\<lparr>band = ''Low'', Minimum = 0, Maximum = 2000\<rparr>]" 19358,
      unfolded Let_def deposit_150_run, THEN conjunct1, THEN conjunct1]
  show ?thesis
    using ne t
    by (simp add: shown_def python_float_def truthy_def fl_0 py_round_0 fl_values py_round_values)
qed

text \<open>
  Two deposits of 0.10 and 0.20 on one day with nothing else on that day: the column sum
  of the two floats and of their float sum is the same number, and so is the output.
\<close>

theorem same_day_netting_witness:
  "f_sum python_float [fl (1 / 10), fl (2 / 10)] =
   f_sum python_float [f_add python_float (fl (1 / 10)) (fl (2 / 10))]
 \<and> calculate_interest_with_steps_f python_float
     [\<lparr>Start_Date = 19358, rate_band = ''Low'', rate = fl (365 / 100)\<rparr>]
     [\<lparr>band = ''Low'', Minimum = 0, Maximum = 2000\<rparr>]
     [\<lparr>Date = 19358, Change = fl (1 / 10)\<rparr>, \<lparr>Date = 19358, Change = fl (2 / 10)\<rparr>] 19358 =
   calculate_interest_with_steps_f python_float
     [\<lparr>Start_Date = 19358, rate_band = ''Low'', rate = fl (365 / 100)\<rparr>]
     [\<lparr>band = ''Low'', Minimum = 0, Maximum = 2000\<rparr>]
     [\<lparr>Date = 19358, Change = f_add python_float (fl (1 / 10)) (fl (2 / 10))\<rparr>] 19358"
proof -
  have h: "f_sum python_float
     (map Change (filter (\<lambda>t. Date t = 19358)
        ([] @ \<lparr>Date = 19358, Change = fl (1 / 10)\<rparr> # [] @
              \<lparr>Date = 19358, Change = fl (2 / 10)\<rparr> # []))) =
   f_sum python_float
     (map Change (filter (\<lambda>t. Date t = 19358)
        ([] @ \<lparr>Date = 19358, Change = f_add python_float (fl (1 / 10)) (fl (2 / 10))\<rparr> # [] @ [])))"
    by (simp add: python_float_def Let_def fl_0 fl_values)
  note t = same_day_netting [OF h, of
      "[\<lparr>Start_Date = 19358, rate_band = ''Low'', rate = fl (365 / 100)\<rparr>]"
      "[\<lparr>band = ''Low'', Minimum = 0, Maximum = 2000\<rparr>]" 19358, THEN conjunct1]
  show ?thesis
    using h t by simp
qed

text \<open>
  The end-to-end example in Python floats: the three rows show the floats nearest to
  0.1 as daily interest and to 0.1, 0.2 and 0.3 as total so far, and the returned total
  is the float nearest to 0.3.
\<close>

lemma end_to_end_example_float:
  "calculate_interest_with_steps_f python_float
     [\<lparr>Start_Date = 19358, rate_band = ''Low'', rate = fl (365 / 100)\<rparr>]
     [\<lparr>band = ''Low'', Minimum = 0, Maximum = 2000\<rparr>]
     [\<lparr>Date = 19358, Change = 1000\<rparr>] 19360 =
   Inr ([\<lparr>log_Date = 19358, log_Balance = 1000, log_Band = ''Low'', log_Rate = fl (365 / 100),
          log_Daily_Interest = fl (1 / 10), log_Total_Interest = fl (1 / 10)\<rparr>,
         \<lparr>log_Date = 19359, log_Balance = 1000, log_Band = ''Low'', log_Rate = fl (365 / 100),
          log_Daily_Interest = fl (1 / 10), log_Total_Interest = fl (2 / 10)\<rparr>,
         \<lparr>log_Date = 19360, log_Balance = 1000, log_Band = ''Low'', log_Rate = fl (365 / 100),
          log_Daily_Interest = fl (1 / 10), log_Total_Interest = fl (3 / 10)\<rparr>], fl (3 / 10))"
  by (simp add: steps_f_eval)

end
